theory Spec2Isabelle
  imports Main "HOL-Library.Word" "HOL-Library.AList"
begin

section \<open>Values shared by all components\<close>

text \<open>
  Go's \<^verbatim>\<open>error\<close> interface is one type; the values that the modelled code creates or
  tells apart are the constructors below. \<^verbatim>\<open>nil\<close> is \<open>None\<close> of \<open>error option\<close>.
  \<open>ErrInvalidBucketName\<close> and \<open>ErrBucketExisted\<close> are the two package variables,
  \<open>NoSuchBucket\<close>, \<open>NoSuchKey\<close> and \<open>BucketAlreadyExists\<close> the backend error types that
  \<^verbatim>\<open>errors.As\<close> recognises, \<open>ApiError\<close> any other backend fault, \<open>ErrUnknownCephRGW\<close> the
  value of \<^verbatim>\<open>fmt.Errorf("Unknown Error In Ceph RGW")\<close>, \<open>ContextCanceled\<close> and
  \<open>DeadlineExceeded\<close> the two values of \<^verbatim>\<open>ctx.Err()\<close>, and \<open>StreamError\<close> whatever an
  underlying stream reports.
\<close>

datatype error =
    ErrInvalidBucketName
  | ErrBucketExisted
  | NoSuchBucket
  | NoSuchKey
  | BucketAlreadyExists
  | ApiError string
  | ErrUnknownCephRGW
  | ContextCanceled
  | DeadlineExceeded
  | StreamError string

text \<open>Run-time panics of Go that the modelled code can raise.\<close>

datatype panic =
    CloseOfClosedChannel
  | CloseOfNilChannel
  | MakesliceLenOutOfRange

text \<open>
  How a call ends: it returns a value, it blocks for ever, the process exits
  (\<^verbatim>\<open>log.Fatalf\<close>), or it panics.
\<close>

datatype 'a outcome = Returned 'a | Blocked | Exited | Panicked panic

text \<open>\<^verbatim>\<open>int\<close> and \<^verbatim>\<open>int64\<close> on a 64-bit platform: two's complement, \<open>+\<close> and \<open>-\<close> wrap.\<close>

type_synonym int64 = "64 word"

section \<open>File data pipeline: \<^verbatim>\<open>S3Node\<close>\<close>

text \<open>
  The streams behind the fields \<^verbatim>\<open>in\<close> and \<^verbatim>\<open>close\<close> are interface values. Their joint state
  is \<open>'s\<close>; \<^verbatim>\<open>in.Read(p)\<close> is a function of that state and of \<^verbatim>\<open>len(p)\<close>, returning the
  count, the error and the new state, and \<^verbatim>\<open>close.Close()\<close> likewise.
\<close>

type_synonym 's reader = "'s \<Rightarrow> nat \<Rightarrow> (int64 \<times> error option) \<times> 's"
type_synonym 's closer = "'s \<Rightarrow> error option \<times> 's"
type_synonym 'w writer = "'w \<Rightarrow> nat \<Rightarrow> (int64 \<times> error option) \<times> 'w"

text \<open>The state of a channel value such as \<^verbatim>\<open>exit\<close>.\<close>

datatype chan = ChanNil | ChanOpen | ChanClosed

text \<open>
  The fields of \<^verbatim>\<open>S3Node\<close> that the modelled methods read or write. \<open>inR\<close> is the field
  \<^verbatim>\<open>in\<close>, \<open>ctx\<close> holds what \<^verbatim>\<open>sno.ctx.Err()\<close> returns, \<open>close\<close> is \<open>None\<close> when the field is
  \<^verbatim>\<open>nil\<close>, \<open>st\<close> is the state of the underlying streams. The mutex is not modelled: every
  method below runs from \<^verbatim>\<open>Lock\<close> to \<^verbatim>\<open>Unlock\<close> without interleaving.
\<close>

record 's S3Node =
  inR :: "'s reader"
  ctx :: "error option"
  close :: "'s closer option"
  closed :: bool
  exit :: chan
  withBuf :: bool
  st :: 's

text \<open>
  \<^verbatim>\<open>checkReadBefore\<close>: the named result \<^verbatim>\<open>bytesUntilLimit\<close> starts at zero and is never
  assigned.
\<close>

definition checkReadBefore :: "'s S3Node \<Rightarrow> int64 \<times> error option" where
  "checkReadBefore sno =
     (let bytesUntilLimit = 0 in
      case ctx sno of
        Some err \<Rightarrow> (0, Some err)
      | None \<Rightarrow> (bytesUntilLimit, None))"

definition checkReadAfter :: "int64 \<Rightarrow> int64 \<Rightarrow> error option \<Rightarrow> int64 \<times> error option" where
  "checkReadAfter bytesUntilLimit n err =
     (let bytesUntilLimit1 = bytesUntilLimit - n in
      if bytesUntilLimit1 <s 0 then
        (let n1 = n + bytesUntilLimit1 in (if n1 <s 0 then 0 else n1, err))
      else (n, err))"

text \<open>
  \<^verbatim>\<open>read\<close>: when \<^verbatim>\<open>checkReadBefore\<close> fails the named result \<^verbatim>\<open>n\<close> keeps its zero value and
  the stream is not touched.
\<close>

definition read :: "'s S3Node \<Rightarrow> 's reader \<Rightarrow> nat \<Rightarrow> (int64 \<times> error option) \<times> 's S3Node" where
  "read sno rd p =
     (case checkReadBefore sno of
        (bytesUntilLimit, Some err) \<Rightarrow> ((0, Some err), sno)
      | (bytesUntilLimit, None) \<Rightarrow>
          (case rd (st sno) p of
             ((n, err), s1) \<Rightarrow> (checkReadAfter bytesUntilLimit n err, sno\<lparr>st := s1\<rparr>)))"

definition Read :: "'s S3Node \<Rightarrow> nat \<Rightarrow> (int64 \<times> error option) \<times> 's S3Node" where
  "Read sno p = read sno (inR sno) p"

text \<open>\<^verbatim>\<open>accountWriteTo.Write\<close>, the writer that \<^verbatim>\<open>WriteTo\<close> hands to the stream.\<close>

definition Write :: "'s S3Node \<Rightarrow> 'w writer \<Rightarrow> 'w \<Rightarrow> nat \<Rightarrow> (int64 \<times> error option) \<times> 'w" where
  "Write sno w ws p =
     (case checkReadBefore sno of
        (bytesUntilLimit, Some err) \<Rightarrow> ((0, Some err), ws)
      | (bytesUntilLimit, None) \<Rightarrow>
          (case w ws p of
             ((n, err), ws1) \<Rightarrow> (checkReadAfter bytesUntilLimit n err, ws1)))"

text \<open>
  \<^verbatim>\<open>AccountRead\<close> returns the error only; \<open>AccountRead_n\<close> is the value of its local \<^verbatim>\<open>n\<close>
  when it returns.
\<close>

definition AccountRead_n :: "'s S3Node \<Rightarrow> int64 \<Rightarrow> int64 \<times> error option" where
  "AccountRead_n sno n =
     (case checkReadBefore sno of
        (bytesUntilLimit, Some err) \<Rightarrow> (n, Some err)
      | (bytesUntilLimit, None) \<Rightarrow> checkReadAfter bytesUntilLimit n None)"

definition AccountRead :: "'s S3Node \<Rightarrow> int64 \<Rightarrow> error option" where
  "AccountRead sno n = snd (AccountRead_n sno n)"

definition Close :: "'s S3Node \<Rightarrow> error option \<times> 's S3Node" where
  "Close sno =
     (if closed sno then (None, sno)
      else
        (let sno1 = sno\<lparr>closed := True\<rparr> in
         case close sno1 of
           None \<Rightarrow> (None, sno1)
         | Some c \<Rightarrow> (case c (st sno1) of (err, s1) \<Rightarrow> (err, sno1\<lparr>st := s1\<rparr>))))"

text \<open>\<^verbatim>\<open>Done\<close> is \<^verbatim>\<open>close(sno.exit)\<close>: Go panics on a closed and on a nil channel.\<close>

definition Done :: "'s S3Node \<Rightarrow> 's S3Node outcome" where
  "Done sno =
     (case exit sno of
        ChanOpen \<Rightarrow> Returned (sno\<lparr>exit := ChanClosed\<rparr>)
      | ChanClosed \<Rightarrow> Panicked CloseOfClosedChannel
      | ChanNil \<Rightarrow> Panicked CloseOfNilChannel)"

text \<open>
  A concrete handle: its stream holds \<open>k\<close> unread bytes and hands out at most \<^verbatim>\<open>len(p)\<close> of
  them per call, ignoring whether it was closed; closing it reports no error.
\<close>

definition bytesReader :: "nat reader" where
  "bytesReader k p = ((word_of_nat (min k p), None), k - min k p)"

definition nopCloser :: "nat closer" where
  "nopCloser k = (None, k)"

definition openNode :: "nat \<Rightarrow> nat S3Node" where
  "openNode k =
     \<lparr>inR = bytesReader, ctx = None, close = Some nopCloser, closed = False,
      exit = ChanOpen, withBuf = False, st = k\<rparr>"

definition sinkWriter :: "nat writer" where
  "sinkWriter written p = ((word_of_nat p, None), written + p)"

section \<open>Paths: \<^verbatim>\<open>strings.Split\<close>, \<^verbatim>\<open>filepath.Split\<close>, \<^verbatim>\<open>filepath.Clean\<close>\<close>

text \<open>
  The three library functions the client and the tree builder call, on a Unix platform.
  A string is its list of bytes. \<^verbatim>\<open>strings.Split(s, "/")\<close> of the empty string is the list
  holding one empty string.
\<close>

fun strings_Split :: "char \<Rightarrow> string \<Rightarrow> string list" where
  "strings_Split sep [] = [[]]"
| "strings_Split sep (c # cs) =
     (if c = sep then [] # strings_Split sep cs
      else (case strings_Split sep cs of
              [] \<Rightarrow> [[c]]
            | x # xs \<Rightarrow> (c # x) # xs))"

text \<open>\<^verbatim>\<open>filepath.Split\<close> cuts right after the last separator.\<close>

definition filepath_Split :: "string \<Rightarrow> string \<times> string" where
  "filepath_Split path =
     (let i = length path - length (takeWhile (\<lambda>c. c \<noteq> CHR ''/'') (rev path))
      in (take i path, drop i path))"

text \<open>
  \<^verbatim>\<open>filepath.Clean\<close>, element by element: empty elements and \<^verbatim>\<open>.\<close> are dropped, \<^verbatim>\<open>..\<close>
  removes the element before it when there is one that is not itself \<^verbatim>\<open>..\<close>, is dropped
  at the root of a rooted path and is kept otherwise; an empty result is \<^verbatim>\<open>.\<close>.
\<close>

fun cleanElems :: "bool \<Rightarrow> string list \<Rightarrow> string list \<Rightarrow> string list" where
  "cleanElems rooted out [] = out"
| "cleanElems rooted out (e # es) =
     (if e = [] \<or> e = ''.'' then cleanElems rooted out es
      else if e = ''..'' then
        (if out \<noteq> [] \<and> last out \<noteq> ''..'' then cleanElems rooted (butlast out) es
         else if rooted then cleanElems rooted out es
         else cleanElems rooted (out @ [''..'']) es)
      else cleanElems rooted (out @ [e]) es)"

fun joinElems :: "string list \<Rightarrow> string" where
  "joinElems [] = []"
| "joinElems [e] = e"
| "joinElems (e # es) = e @ ''/'' @ joinElems es"

definition filepath_Clean :: "string \<Rightarrow> string" where
  "filepath_Clean path =
     (if path = [] then ''.''
      else
        (let rooted = (hd path = CHR ''/'');
             s = (if rooted then ''/'' else []) @
                 joinElems (cleanElems rooted [] (strings_Split CHR ''/'' path))
         in if s = [] then ''.'' else s))"

section \<open>Object store client\<close>

text \<open>
  The requests that the client sends to the backend through the SDK. \<open>CallDownload\<close> is
  \<^verbatim>\<open>downloader.Download\<close>; its last argument is the length of the buffer handed over.
\<close>

datatype call =
    CallHeadBucket string
  | CallCreateBucket string
  | CallListObjectsV2 string "string option"
  | CallDeleteObject string string
  | CallDeleteBucket string
  | CallHeadObject string string
  | CallDownload string string nat

text \<open>
  What a request returns: the error, and the fields of the output that the client reads
  (\<^verbatim>\<open>Contents\<close> as the list of keys, \<open>r_n\<close> the byte count of a download).
\<close>

record response =
  r_err :: "error option"
  Contents :: "string list"
  IsTruncated :: bool
  ContinuationToken :: "string option"
  ContentLength :: int64
  r_n :: int64

text \<open>
  The backend is any state machine \<open>'b\<close> answering requests. The client's world is the
  list of requests sent so far, oldest first, and the state of the backend.
\<close>

type_synonym 'b sdk = "call \<Rightarrow> 'b \<Rightarrow> response \<times> 'b"
type_synonym 'b world = "call list \<times> 'b"

definition invoke :: "'b sdk \<Rightarrow> call \<Rightarrow> 'b world \<Rightarrow> response \<times> 'b world" where
  "invoke sdk c w = (case sdk c (snd w) of (r, b1) \<Rightarrow> (r, (fst w @ [c], b1)))"

record Bucket =
  bucket_Name :: string

record Object =
  object_Bucket :: string
  object_Name :: string
  object_Prefix :: string

definition HeadBucket :: "'b sdk \<Rightarrow> string \<Rightarrow> 'b world \<Rightarrow> (bool \<times> error option) \<times> 'b world" where
  "HeadBucket sdk bucket w =
     (case invoke sdk (CallHeadBucket bucket) w of
        (r, w1) \<Rightarrow>
          (case r_err r of
             Some e \<Rightarrow> ((False, Some e), w1)
           | None \<Rightarrow> ((True, None), w1)))"

definition validateBucket :: "'b sdk \<Rightarrow> string \<Rightarrow> 'b world \<Rightarrow> int \<times> 'b world" where
  "validateBucket sdk name w =
     (if length name \<le> 2 then (- 1, w)
      else
        (case HeadBucket sdk name w of
           ((ok, e), w1) \<Rightarrow> (if e \<noteq> None then (0, w1) else (1, w1))))"

text \<open>
  \<^verbatim>\<open>CreateBucket\<close>: the \<^verbatim>\<open>else if\<close> calls \<^verbatim>\<open>validateBucket\<close> a second time, so a name that
  passes the length check is probed twice.
\<close>

definition CreateBucket ::
  "'b sdk \<Rightarrow> string \<Rightarrow> string \<Rightarrow> 'b world \<Rightarrow> (error + Bucket) \<times> 'b world" where
  "CreateBucket sdk user name w =
     (case validateBucket sdk name w of
        (v1, w1) \<Rightarrow>
          if v1 = - 1 then (Inl ErrInvalidBucketName, w1)
          else
            (case validateBucket sdk name w1 of
               (v2, w2) \<Rightarrow>
                 if v2 = 1 then (Inl ErrBucketExisted, w2)
                 else
                   (case invoke sdk (CallCreateBucket name) w2 of
                      (r, w3) \<Rightarrow>
                        (case r_err r of
                           Some e \<Rightarrow> (Inl e, w3)
                         | None \<Rightarrow> (Inr \<lparr>bucket_Name = name\<rparr>, w3)))))"

definition DeleteObject ::
  "'b sdk \<Rightarrow> string \<Rightarrow> string \<Rightarrow> string \<Rightarrow> 'b world \<Rightarrow> error option \<times> 'b world" where
  "DeleteObject sdk user bucket path w =
     (case validateBucket sdk bucket w of
        (v, w1) \<Rightarrow>
          if v \<noteq> 1 then (Some ErrInvalidBucketName, w1)
          else
            (let cpath = filepath_Clean (''./'' @ path) in
             case invoke sdk (CallDeleteObject bucket cpath) w1 of
               (r, w2) \<Rightarrow> (r_err r, w2)))"

text \<open>
  \<^verbatim>\<open>HeadObject\<close> returns length \<open>0\<close> and no error when the bucket does not validate.
\<close>

definition HeadObject ::
  "'b sdk \<Rightarrow> string \<Rightarrow> string \<Rightarrow> string \<Rightarrow> 'b world \<Rightarrow> (int64 \<times> error option) \<times> 'b world" where
  "HeadObject sdk userID bucket path w =
     (case validateBucket sdk bucket w of
        (v, w1) \<Rightarrow>
          if v \<noteq> 1 then ((0, None), w1)
          else
            (let cpath = filepath_Clean (''./'' @ path) in
             case invoke sdk (CallHeadObject bucket cpath) w1 of
               (r, w2) \<Rightarrow>
                 (case r_err r of
                    Some e \<Rightarrow> ((0, Some e), w2)
                  | None \<Rightarrow> ((ContentLength r, None), w2))))"

text \<open>
  \<^verbatim>\<open>GetObject\<close>. \<^verbatim>\<open>make([]byte, contentLength)\<close> panics on a negative length. In the switch
  on the download error, the \<^verbatim>\<open>NoSuchBucket\<close> case falls through to \<^verbatim>\<open>return nil, err\<close>, the
  \<^verbatim>\<open>NoSuchKey\<close> case returns an \<^verbatim>\<open>Object\<close> and a \<^verbatim>\<open>nil\<close> error.
\<close>

definition GetObject ::
  "'b sdk \<Rightarrow> string \<Rightarrow> string \<Rightarrow> string \<Rightarrow> 'b world \<Rightarrow> (error + Object) outcome \<times> 'b world" where
  "GetObject sdk userID bucket path w =
     (case validateBucket sdk bucket w of
        (v, w1) \<Rightarrow>
          if v \<noteq> 1 then (Returned (Inl ErrInvalidBucketName), w1)
          else
            (let cpath = filepath_Clean (''./'' @ path);
                 (dir, file_name) = filepath_Split cpath;
                 obj = \<lparr>object_Bucket = bucket, object_Name = file_name, object_Prefix = dir\<rparr>
             in
             case HeadObject sdk userID bucket path w1 of
               ((contentLength, Some e), w2) \<Rightarrow> (Returned (Inl e), w2)
             | ((contentLength, None), w2) \<Rightarrow>
                 if contentLength <s 0 then (Panicked MakesliceLenOutOfRange, w2)
                 else
                   (case invoke sdk (CallDownload bucket cpath (unat contentLength)) w2 of
                      (r, w3) \<Rightarrow>
                        (case r_err r of
                           Some e \<Rightarrow>
                             if e = NoSuchBucket then (Returned (Inl e), w3)
                             else if e = NoSuchKey then (Returned (Inr obj), w3)
                             else (Returned (Inl e), w3)
                         | None \<Rightarrow>
                             if r_n r \<noteq> contentLength then (Returned (Inl ErrUnknownCephRGW), w3)
                             else (Returned (Inr obj), w3)))))"

text \<open>
  \<^verbatim>\<open>DeleteBucket\<close>, the loop over the items of one page. Each iteration adds one to the
  wait group, starts one goroutine that sends the result of \<^verbatim>\<open>DeleteObject\<close> on the channel
  \<^verbatim>\<open>cos\<close> and one that closes \<^verbatim>\<open>cos\<close> after \<^verbatim>\<open>wg.Wait()\<close>, and then receives from \<^verbatim>\<open>cos\<close> until it
  is closed. Nothing ever calls \<^verbatim>\<open>wg.Done()\<close>, so \<^verbatim>\<open>cos\<close> is never closed: the receive loop
  gets the one result, returns on a failure, and otherwise waits for ever for a second
  value. What it returns on a failure is \<^verbatim>\<open>err\<close>, the error of \<^verbatim>\<open>ListObjectsV2\<close>, not the
  received \<^verbatim>\<open>ret\<close>. The result \<open>None\<close> means that the loop ran to its end.
\<close>

fun deleteItems ::
  "'b sdk \<Rightarrow> string \<Rightarrow> string \<Rightarrow> string list \<Rightarrow> error option \<Rightarrow> nat \<Rightarrow> 'b world
     \<Rightarrow> (error option outcome option \<times> nat) \<times> 'b world" where
  "deleteItems sdk user name [] err wg w = ((None, wg), w)"
| "deleteItems sdk user name (item # items) err wg w =
     (case DeleteObject sdk user name item w of
        (ret, w1) \<Rightarrow>
          if ret \<noteq> None then ((Some (Returned err), wg + 1), w1)
          else ((Some Blocked, wg + 1), w1))"

text \<open>
  The loop over the pages: \<^verbatim>\<open>log.Fatalf\<close> ends the process when listing fails;
  \<^verbatim>\<open>wg.Wait()\<close> after the items returns only for a counter of zero. The loop has no bound
  of its own, so its model is partial: \<open>None\<close> when the pages never end.
\<close>

partial_function (option) deletePages ::
  "'b sdk \<Rightarrow> string \<Rightarrow> string \<Rightarrow> string option \<Rightarrow> 'b world
     \<Rightarrow> (error option outcome option \<times> 'b world) option" where
  "deletePages sdk user name token w =
     (case invoke sdk (CallListObjectsV2 name token) w of
        (out, w1) \<Rightarrow>
          if r_err out \<noteq> None then Some (Some Exited, w1)
          else
            (case deleteItems sdk user name (Contents out) (r_err out) 0 w1 of
               ((Some oc, wg), w2) \<Rightarrow> Some (Some oc, w2)
             | ((None, wg), w2) \<Rightarrow>
                 if wg \<noteq> 0 then Some (Some Blocked, w2)
                 else if IsTruncated out then
                   deletePages sdk user name (ContinuationToken out) w2
                 else Some (None, w2)))"

text \<open>
  \<^verbatim>\<open>DeleteBucket\<close>: the bucket itself is removed only after the loop over the pages was
  left by \<^verbatim>\<open>break\<close>.
\<close>

definition DeleteBucket ::
  "'b sdk \<Rightarrow> string \<Rightarrow> string \<Rightarrow> 'b world \<Rightarrow> (error option outcome \<times> 'b world) option" where
  "DeleteBucket sdk user name w =
     (case validateBucket sdk name w of
        (v, w1) \<Rightarrow>
          if v \<noteq> 1 then Some (Returned (Some ErrInvalidBucketName), w1)
          else
            (case deletePages sdk user name None w1 of
               None \<Rightarrow> None
             | Some (Some oc, w2) \<Rightarrow> Some (oc, w2)
             | Some (None, w2) \<Rightarrow>
                 (case invoke sdk (CallDeleteBucket name) w2 of
                    (r, w3) \<Rightarrow> Some (Returned (r_err r), w3))))"

text \<open>Concrete backends. \<open>okResponse\<close> is a success with empty output.\<close>

definition okResponse :: response where
  "okResponse =
     \<lparr>r_err = None, Contents = [], IsTruncated = False, ContinuationToken = None,
      ContentLength = 0, r_n = 0\<rparr>"

text \<open>
  A backend with one bucket holding the keys \<^verbatim>\<open>k1\<close> and \<^verbatim>\<open>k2\<close>, listed in one page, that
  refuses every object deletion.
\<close>

definition denyDeleteSdk :: "unit sdk" where
  "denyDeleteSdk c b =
     (case c of
        CallListObjectsV2 bucket token \<Rightarrow> (okResponse\<lparr>Contents := [''k1'', ''k2'']\<rparr>, b)
      | CallDeleteObject bucket key \<Rightarrow> (okResponse\<lparr>r_err := Some (ApiError ''AccessDenied'')\<rparr>, b)
      | _ \<Rightarrow> (okResponse, b))"

text \<open>
  A backend with one empty bucket: no key exists, so every request for an object reports
  \<open>NoSuchKey\<close>. Its state counts the bucket probes; the first probe succeeds, each later
  one fails with a timeout.
\<close>

definition flakyProbeSdk :: "nat sdk" where
  "flakyProbeSdk c b =
     (case c of
        CallHeadBucket bucket \<Rightarrow>
          (if b = 0 then okResponse else okResponse\<lparr>r_err := Some (ApiError ''RequestTimeout'')\<rparr>,
           Suc b)
      | CallHeadObject bucket key \<Rightarrow> (okResponse\<lparr>r_err := Some NoSuchKey\<rparr>, b)
      | CallDownload bucket key n \<Rightarrow> (okResponse\<lparr>r_err := Some NoSuchKey\<rparr>, b)
      | _ \<Rightarrow> (okResponse, b))"

text \<open>
  A backend with one bucket: no key exists except \<^verbatim>\<open>short.bin\<close>, declared with 10 bytes
  of which a download delivers 7.
\<close>

definition shortReadSdk :: "unit sdk" where
  "shortReadSdk c b =
     (case c of
        CallHeadObject bucket key \<Rightarrow>
          (if key = ''short.bin'' then okResponse\<lparr>ContentLength := 10\<rparr>
           else okResponse\<lparr>r_err := Some NoSuchKey\<rparr>, b)
      | CallDownload bucket key n \<Rightarrow>
          (if key = ''short.bin'' then okResponse\<lparr>r_n := 7\<rparr>
           else okResponse\<lparr>r_err := Some NoSuchKey\<rparr>, b)
      | _ \<Rightarrow> (okResponse, b))"

text \<open>
  A backend with one bucket: every key is declared with 10 bytes, and a download
  delivers 12.
\<close>

definition longReadSdk :: "unit sdk" where
  "longReadSdk c b =
     (case c of
        CallHeadObject bucket key \<Rightarrow> (okResponse\<lparr>ContentLength := 10\<rparr>, b)
      | CallDownload bucket key n \<Rightarrow> (okResponse\<lparr>r_n := 12\<rparr>, b)
      | _ \<Rightarrow> (okResponse, b))"

text \<open>
  A backend with one bucket in which every key is declared with 10 bytes by
  \<^verbatim>\<open>HeadObject\<close> and is gone when the download asks for it: the download reports
  \<open>NoSuchKey\<close> and has read nothing.
\<close>

definition vanishingSdk :: "unit sdk" where
  "vanishingSdk c b =
     (case c of
        CallHeadObject bucket key \<Rightarrow> (okResponse\<lparr>ContentLength := 10\<rparr>, b)
      | CallDownload bucket key n \<Rightarrow> (okResponse\<lparr>r_err := Some NoSuchKey\<rparr>, b)
      | _ \<Rightarrow> (okResponse, b))"

section \<open>Retry policy: \<^verbatim>\<open>ExponentialJitterBackoff\<close>\<close>

text \<open>
  The finite \<^verbatim>\<open>float64\<close> values, away from the ends of the exponent range: \<open>Float64 m e\<close>
  is the number \<open>m\<close> times two to the power \<open>e\<close>. Every operation below computes the exact
  result and rounds it once to 53 significant bits, to the nearest value and to the even
  one of two nearest values, as IEEE 754 arithmetic does.
\<close>

datatype float64 = Float64 int int

text \<open>The number of binary digits of a positive integer.\<close>

function bitLength :: "int \<Rightarrow> nat" where
  "bitLength n = (if n \<le> 0 then 0 else Suc (bitLength (n div 2)))"
  by pat_completeness auto
termination
  by (relation "measure nat") auto

text \<open>The integer nearest to \<open>num / den\<close>, the even one of two nearest.\<close>

definition roundNearestEven :: "int \<Rightarrow> int \<Rightarrow> int" where
  "roundNearestEven num den =
     (let q = num div den; r = num mod den
      in if den < 2 * r \<or> (2 * r = den \<and> odd q) then q + 1 else q)"

text \<open>
  The \<^verbatim>\<open>float64\<close> nearest to \<open>num / den\<close> for positive \<open>num\<close> and \<open>den\<close>: with \<open>l\<close> the integer
  part of the binary logarithm of the quotient, the mantissa is the quotient scaled to
  lie between \<open>2 ^ 52\<close> and \<open>2 ^ 53\<close> and rounded.
\<close>

definition roundRatio :: "int \<Rightarrow> int \<Rightarrow> int \<times> int" where
  "roundRatio num den =
     (let k = int (bitLength num) - int (bitLength den);
          l = (if (if 0 \<le> k then den * 2 ^ nat k \<le> num else den \<le> num * 2 ^ nat (- k))
               then k else k - 1);
          e = l - 52
      in (if 0 \<le> e then roundNearestEven num (den * 2 ^ nat e)
          else roundNearestEven (num * 2 ^ nat (- e)) den, e))"

definition f64 :: "int \<Rightarrow> int \<Rightarrow> float64" where
  "f64 num den =
     (if num = 0 then Float64 0 0
      else (case roundRatio \<bar>num\<bar> den of (m, e) \<Rightarrow> Float64 (sgn num * m) e))"

text \<open>\<^verbatim>\<open>float64(x)\<close> of an \<^verbatim>\<open>int\<close>, and the product of two \<^verbatim>\<open>float64\<close> values.\<close>

definition f64_of_int :: "int64 \<Rightarrow> float64" where
  "f64_of_int x = f64 (sint x) 1"

fun f64_mul :: "float64 \<Rightarrow> float64 \<Rightarrow> float64" where
  "f64_mul (Float64 m1 e1) (Float64 m2 e2) =
     (if 0 \<le> e1 + e2 then f64 (m1 * m2 * 2 ^ nat (e1 + e2)) 1
      else f64 (m1 * m2) (2 ^ nat (- (e1 + e2))))"

text \<open>
  \<^verbatim>\<open>int(f)\<close> drops the fraction. For a value outside the range of \<^verbatim>\<open>int\<close> the language
  leaves the result to the platform: it is the parameter \<open>outOfRange\<close>.
\<close>

fun int_of_f64 :: "int64 \<Rightarrow> float64 \<Rightarrow> int64" where
  "int_of_f64 outOfRange (Float64 m e) =
     (let v = (if 0 \<le> e then m * 2 ^ nat e else sgn m * (\<bar>m\<bar> div 2 ^ nat (- e)))
      in if - (2 ^ 63) \<le> v \<and> v < 2 ^ 63 then word_of_int v else outOfRange)"

text \<open>
  \<^verbatim>\<open>int(math.Pow(3, float64(attempt)))\<close> for an attempt number that is not negative. Up to
  attempt 33 the power is below \<open>2 ^ 53\<close>, so \<^verbatim>\<open>math.Pow\<close> computes it without rounding and the
  conversion is exact. Beyond that the value depends on the rounding inside \<^verbatim>\<open>math.Pow\<close>
  and, from attempt 40 on, on the platform's conversion of a value out of range: it is
  the parameter \<open>powBeyond\<close>.
\<close>

definition powInt :: "(nat \<Rightarrow> int64) \<Rightarrow> nat \<Rightarrow> int64" where
  "powInt powBeyond attempt =
     (if attempt \<le> 33 then word_of_int (3 ^ attempt) else powBeyond attempt)"

definition fiveMinutes :: int64 where
  "fiveMinutes = 300000000000"

record ExponentialJitterBackoff =
  minDelay :: int64
  maxBackoffAttempts :: int64

text \<open>
  \<^verbatim>\<open>BackoffDelay\<close>, with the value \<open>intn\<close> of \<^verbatim>\<open>rand.Intn(120-80)\<close> as an argument. The jitter is
  the quotient of the exact \<^verbatim>\<open>float64(intn + 80)\<close> by 100, rounded; the product of the
  delay in nanoseconds and the power is a product of \<^verbatim>\<open>int\<close> and wraps; the error argument
  and the field \<^verbatim>\<open>maxBackoffAttempts\<close> are not used. The returned error is always \<^verbatim>\<open>nil\<close>.
\<close>

definition BackoffDelay ::
  "(nat \<Rightarrow> int64) \<Rightarrow> int64 \<Rightarrow> ExponentialJitterBackoff \<Rightarrow> nat \<Rightarrow> nat \<Rightarrow> int64" where
  "BackoffDelay powBeyond outOfRange j attempt intn =
     (let jitter = f64 (int intn + 80) 100;
          retryTime = int_of_f64 outOfRange
            (f64_mul (f64_of_int (minDelay j * powInt powBeyond attempt)) jitter)
      in if fiveMinutes <s retryTime then fiveMinutes else retryTime)"

text \<open>The backoff that \<^verbatim>\<open>NewS3Client\<close> installs: 25 milliseconds and 9 attempts.\<close>

definition clientBackoff :: ExponentialJitterBackoff where
  "clientBackoff = \<lparr>minDelay = 25000000, maxBackoffAttempts = 9\<rparr>"

text \<open>
  The 40 values of \<^verbatim>\<open>rand.Intn(120-80)\<close>, each as likely as the other, and the sum of the
  delays over them: the expected delay of an attempt is this sum divided by 40.
\<close>

definition draws :: "nat list" where
  "draws = [0, 1, 2, 3, 4, 5, 6, 7, 8, 9] @ [10, 11, 12, 13, 14, 15, 16, 17, 18, 19]
         @ [20, 21, 22, 23, 24, 25, 26, 27, 28, 29] @ [30, 31, 32, 33, 34, 35, 36, 37, 38, 39]"

definition sumDelay ::
  "(nat \<Rightarrow> int64) \<Rightarrow> int64 \<Rightarrow> ExponentialJitterBackoff \<Rightarrow> nat \<Rightarrow> int" where
  "sumDelay powBeyond outOfRange j attempt =
     sum_list (map (\<lambda>intn. sint (BackoffDelay powBeyond outOfRange j attempt intn)) draws)"

section \<open>Inode tree builder: \<^verbatim>\<open>s3Root.OnAdd\<close>\<close>

text \<open>
  An entry of the listing that \<^verbatim>\<open>OnAdd\<close> ranges over: its name and what
  \<^verbatim>\<open>f.FileInfo().IsDir()\<close> answers.
\<close>

record fileEntry =
  file_Name :: string
  file_IsDir :: bool

text \<open>
  The operations object of an inode: \<^verbatim>\<open>&fs.Inode{}\<close> for a directory made on the way,
  \<^verbatim>\<open>&s3File{file: f}\<close> for a file.
\<close>

datatype embedder = InodeOps | S3FileOps fileEntry

record StableAttr =
  Mode :: "32 word"

definition S_IFDIR :: "32 word" where
  "S_IFDIR = 0x4000"

text \<open>
  Modelled from the spec: the type \<^verbatim>\<open>Inode\<close> of package \<^verbatim>\<open>fs\<close> and its methods \<^verbatim>\<open>GetChild\<close>,
  \<^verbatim>\<open>NewPersistentInode\<close> and \<^verbatim>\<open>AddChild\<close> are not among the sources. Section 3 of the
  specification gives a directory an insertion-ordered mapping from child name to child
  node, unique per parent. An inode is kept here with its attributes, its operations
  object and that mapping, which stays empty in every inode that is not a Directory; the
  inodes live in a store indexed by address, the root at address \<open>0\<close>.
\<close>

record Inode =
  stableAttr :: StableAttr
  ops :: embedder
  children :: "(string \<times> nat) list"

type_synonym tree = "Inode list"

text \<open>Modelled from the spec: \<^verbatim>\<open>GetChild\<close> looks the name up, \<open>None\<close> is \<^verbatim>\<open>nil\<close>.\<close>

definition GetChild :: "tree \<Rightarrow> nat \<Rightarrow> string \<Rightarrow> nat option" where
  "GetChild t p name = map_of (children (t ! p)) name"

text \<open>Modelled from the spec: \<^verbatim>\<open>NewPersistentInode\<close> allocates an inode without children.\<close>

definition NewPersistentInode :: "tree \<Rightarrow> embedder \<Rightarrow> StableAttr \<Rightarrow> nat \<times> tree" where
  "NewPersistentInode t node attr =
     (length t, t @ [\<lparr>stableAttr = attr, ops = node, children = []\<rparr>])"

definition isDirectory :: "tree \<Rightarrow> nat \<Rightarrow> bool" where
  "isDirectory t p = (Mode (stableAttr (t ! p)) = S_IFDIR)"

text \<open>
  Modelled from the spec: \<^verbatim>\<open>AddChild\<close> binds a name in the mapping of a Directory. The
  specification gives a mapping to a Directory only and has no entry under the empty
  name: for a parent that is not a Directory and for the empty name the model has no
  result, \<open>None\<close>. Neither the specification nor the sources tell what the method does
  with a name that is bound already when its third argument is \<^verbatim>\<open>true\<close>, as it is at both
  calls in \<^verbatim>\<open>OnAdd\<close>. That is the parameter \<open>rebind\<close>: when it holds, the name keeps its
  place and gets the new child; when it does not, the old binding stays and nothing
  changes. A free name is bound at the end of the mapping either way.
\<close>

definition AddChild :: "bool \<Rightarrow> tree \<Rightarrow> nat \<Rightarrow> string \<Rightarrow> nat \<Rightarrow> tree option" where
  "AddChild rebind t p name ch =
     (if \<not> isDirectory t p \<or> name = [] then None
      else if map_of (children (t ! p)) name \<noteq> None \<and> \<not> rebind then Some t
      else Some (t[p := (t ! p)\<lparr>children := AList.update name ch (children (t ! p))\<rparr>]))"

text \<open>
  The inner loop of \<^verbatim>\<open>OnAdd\<close> over the components of the directory part, from the inode
  \<open>p\<close>: an empty component is skipped, a missing child is created as a directory, and an
  existing child is walked into without a look at its kind. The result is \<open>None\<close> when a
  call of \<^verbatim>\<open>AddChild\<close> has none.
\<close>

fun OnAdd_components :: "bool \<Rightarrow> tree \<Rightarrow> nat \<Rightarrow> string list \<Rightarrow> (nat \<times> tree) option" where
  "OnAdd_components rebind t p [] = Some (p, t)"
| "OnAdd_components rebind t p (component # cs) =
     (if length component = 0 then OnAdd_components rebind t p cs
      else
        (case GetChild t p component of
           None \<Rightarrow>
             (case NewPersistentInode t InodeOps \<lparr>Mode = S_IFDIR\<rparr> of
                (ch, t1) \<Rightarrow>
                  (case AddChild rebind t1 p component ch of
                     None \<Rightarrow> None
                   | Some t2 \<Rightarrow> OnAdd_components rebind t2 ch cs))
         | Some ch \<Rightarrow> OnAdd_components rebind t ch cs))"

text \<open>
  The body of the outer loop for one entry. \<^verbatim>\<open>OnAdd\<close> has no result and no statement that
  raises an error: what the model returns is the tree alone.
\<close>

definition OnAdd_file :: "bool \<Rightarrow> tree \<Rightarrow> fileEntry \<Rightarrow> tree option" where
  "OnAdd_file rebind t f =
     (if file_IsDir f then Some t
      else
        (case filepath_Split (filepath_Clean (file_Name f)) of
           (dir, base) \<Rightarrow>
             (case OnAdd_components rebind t 0 (strings_Split CHR ''/'' dir) of
                None \<Rightarrow> None
              | Some (p, t1) \<Rightarrow>
                  (case NewPersistentInode t1 (S3FileOps f) \<lparr>Mode = 0\<rparr> of
                     (ch, t2) \<Rightarrow> AddChild rebind t2 p base ch))))"

fun OnAdd :: "bool \<Rightarrow> tree \<Rightarrow> fileEntry list \<Rightarrow> tree option" where
  "OnAdd rebind t [] = Some t"
| "OnAdd rebind t (f # files) =
     (case OnAdd_file rebind t f of
        None \<Rightarrow> None
      | Some t1 \<Rightarrow> OnAdd rebind t1 files)"

text \<open>The tree before \<^verbatim>\<open>OnAdd\<close>: the root directory alone.\<close>

definition newRoot :: tree where
  "newRoot = [\<lparr>stableAttr = \<lparr>Mode = S_IFDIR\<rparr>, ops = InodeOps, children = []\<rparr>]"

definition key :: "string \<Rightarrow> fileEntry" where
  "key name = \<lparr>file_Name = name, file_IsDir = False\<rparr>"

text \<open>
  Reading a tree: the inode at a path from the root, and the children of the directory
  at a path as pairs of name and kind (\<open>True\<close> for a directory), in the order of the
  mapping. A path that leads nowhere has no children.
\<close>

fun lookupFrom :: "tree \<Rightarrow> nat \<Rightarrow> string list \<Rightarrow> nat option" where
  "lookupFrom t p [] = Some p"
| "lookupFrom t p (name # names) =
     (case GetChild t p name of
        None \<Rightarrow> None
      | Some ch \<Rightarrow> lookupFrom t ch names)"

definition childKinds :: "tree \<Rightarrow> string list \<Rightarrow> (string \<times> bool) list" where
  "childKinds t path =
     (case lookupFrom t 0 path of
        None \<Rightarrow> []
      | Some p \<Rightarrow> map (\<lambda>(name, ch). (name, isDirectory t ch)) (children (t ! p)))"

text \<open>
  The shape that the three keys \<^verbatim>\<open>a/b/c.txt\<close>, \<^verbatim>\<open>a/b/d.txt\<close> and \<^verbatim>\<open>a/e.txt\<close> call for: six inodes
  in all; under the root the directory \<^verbatim>\<open>a\<close> and nothing else; under \<^verbatim>\<open>a\<close> the directory \<^verbatim>\<open>b\<close>
  and the file \<^verbatim>\<open>e.txt\<close> and nothing else; under \<^verbatim>\<open>b\<close> the files \<^verbatim>\<open>c.txt\<close> and \<^verbatim>\<open>d.txt\<close> and
  nothing else; nothing under the files.
\<close>

definition abcShape :: "tree \<Rightarrow> bool" where
  "abcShape t =
     (length t = 6
      \<and> childKinds t [] = [(''a'', True)]
      \<and> length (childKinds t [''a'']) = 2
      \<and> set (childKinds t [''a'']) = {(''b'', True), (''e.txt'', False)}
      \<and> length (childKinds t [''a'', ''b'']) = 2
      \<and> set (childKinds t [''a'', ''b'']) = {(''c.txt'', False), (''d.txt'', False)}
      \<and> lookupFrom t 0 [''a'', ''b'', ''c.txt''] \<noteq> None
      \<and> childKinds t [''a'', ''b'', ''c.txt''] = []
      \<and> lookupFrom t 0 [''a'', ''b'', ''d.txt''] \<noteq> None
      \<and> childKinds t [''a'', ''b'', ''d.txt''] = []
      \<and> lookupFrom t 0 [''a'', ''e.txt''] \<noteq> None
      \<and> childKinds t [''a'', ''e.txt''] = [])"

text \<open>No name is bound twice in any inode's mapping.\<close>

definition uniqueNames :: "tree \<Rightarrow> bool" where
  "uniqueNames t = list_all (\<lambda>n. distinct (map fst (children n))) t"

text \<open>
  A well-formed store: the root exists and every child address is the address of an
  inode.
\<close>

definition wellFormed :: "tree \<Rightarrow> bool" where
  "wellFormed t = (t \<noteq> [] \<and> list_all (\<lambda>n. list_all (\<lambda>c. c < length t) (map snd (children n))) t)"

section \<open>Properties of the pipeline\<close>

lemma sless_neg_of_pos:
  assumes "0 <s (n::int64)"
  shows "0 - n <s 0"
proof -
  have pos: "0 < sint n"
    using assms by (simp add: word_sless_alt)
  have upper: "sint n < 2 ^ 63"
    using sint_lt [of n] by simp
  have "sint (0 - n) = signed_take_bit 63 (- sint n)"
    by (simp add: sint_word_ariths)
  also have "\<dots> = - sint n"
    using pos upper by (intro signed_take_bit_int_eq_self) simp_all
  finally show ?thesis
    using pos by (simp add: word_sless_alt)
qed

lemma checkReadAfter_zero_limit:
  "0 <s n \<Longrightarrow> checkReadAfter 0 n err = (0, err)"
  using sless_neg_of_pos [of n] by (simp add: checkReadAfter_def)

lemma checkReadBefore_live:
  "ctx sno = None \<Longrightarrow> checkReadBefore sno = (0, None)"
  by (simp add: checkReadBefore_def)

text \<open>
  C2. On a handle whose context is not cancelled, a stream read that produces \<open>n > 0\<close>
  bytes is reported as \<open>0\<close> bytes with the stream's own error value: the limit computed
  before the read is always \<open>0\<close>, so the clamp after the read removes the whole count. The
  same holds for the writer used by \<^verbatim>\<open>WriteTo\<close> and for the count inside \<^verbatim>\<open>AccountRead\<close>,
  which returns no error.
\<close>

theorem Read_reports_zero:
  assumes "ctx sno = None" and "0 <s n"
  shows "fst (checkReadBefore sno) = 0
    \<and> (inR sno (st sno) p = ((n, err), s1) \<longrightarrow> fst (Read sno p) = (0, err))
    \<and> (w ws p = ((n, err), ws1) \<longrightarrow> fst (Write sno w ws p) = (0, err))
    \<and> AccountRead_n sno n = (0, None)
    \<and> AccountRead sno n = None"
  using assms
  by (simp add: Read_def read_def Write_def AccountRead_def AccountRead_n_def
      checkReadBefore_live checkReadAfter_zero_limit)

theorem Read_reports_zero_witness:
  "ctx (openNode 10) = None \<and> 0 <s (4::int64)
    \<and> inR (openNode 10) (st (openNode 10)) 4 = ((4, None), 6)
    \<and> fst (Read (openNode 10) 4) = (0, None)
    \<and> sinkWriter 0 4 = ((4, None), 4)
    \<and> fst (Write (openNode 10) sinkWriter 0 4) = (0, None)
    \<and> AccountRead (openNode 10) 4 = None"
proof -
  have c: "ctx (openNode 10) = None"
    by (simp add: openNode_def)
  have n: "0 <s (4::int64)"
    by (simp add: word_sless_alt)
  have r: "inR (openNode 10) (st (openNode 10)) 4 = ((4, None), 6)"
    by (simp add: openNode_def bytesReader_def)
  have w: "sinkWriter 0 4 = ((4, None), 4)"
    by (simp add: sinkWriter_def)
  show ?thesis
    using Read_reports_zero [OF c n, of 4 None 6 sinkWriter 0 4] c n r w by simp
qed

lemma Close_twice:
  "Close (snd (Close sno)) = (None, snd (Close sno))"
  by (simp add: Close_def Let_def split: option.splits prod.splits)

lemma ctx_Close: "ctx (snd (Close sno)) = ctx sno"
  by (simp add: Close_def Let_def split: option.splits prod.splits)

lemma inR_Close: "inR (snd (Close sno)) = inR sno"
  by (simp add: Close_def Let_def split: option.splits prod.splits)

lemma exit_Close: "exit (snd (Close sno)) = exit sno"
  by (simp add: Close_def Let_def split: option.splits prod.splits)

lemma exit_Read: "exit (snd (Read sno p)) = exit sno"
  by (simp add: Read_def read_def split: option.splits prod.splits)

text \<open>
  C9, as the code has it. \<^verbatim>\<open>Close\<close> is idempotent: a second \<^verbatim>\<open>Close\<close> returns no error and
  leaves the handle as it is. \<^verbatim>\<open>Read\<close> never looks at the \<^verbatim>\<open>closed\<close> flag: after a completed
  \<^verbatim>\<open>Close\<close> its error is the error of the context when the context is cancelled, and
  otherwise whatever the underlying stream's \<^verbatim>\<open>Read\<close> reports in the state that \<^verbatim>\<open>Close\<close>
  left it in.
\<close>

theorem Close_idempotent_Read_unguarded:
  "Close (snd (Close sno)) = (None, snd (Close sno))
    \<and> snd (fst (Read (snd (Close sno)) p)) =
        (case ctx sno of
           Some e \<Rightarrow> Some e
         | None \<Rightarrow> snd (fst (inR sno (st (snd (Close sno))) p)))"
  by (simp add: Close_twice Read_def read_def checkReadBefore_def checkReadAfter_def
      ctx_Close inR_Close Let_def split: option.splits prod.splits)

text \<open>
  C9, as stated, fails: the handle \<open>openNode 10\<close> is closed without error, and the read
  that follows returns no error at all.
\<close>

theorem Read_after_Close_counterexample:
  "closed (snd (Close (openNode 10)))
    \<and> fst (Close (openNode 10)) = None
    \<and> fst (Read (snd (Close (openNode 10))) 4) = (0, None)"
  by (simp add: Close_def Read_def read_def openNode_def nopCloser_def bytesReader_def
      checkReadBefore_def checkReadAfter_def word_sless_alt)

text \<open>
  C10. \<^verbatim>\<open>Done\<close> is not idempotent. On a handle whose exit channel is open, the first \<^verbatim>\<open>Done\<close>
  closes the channel, and a second \<^verbatim>\<open>Done\<close> panics with a close of a closed channel, also
  when a \<^verbatim>\<open>Close\<close> or a \<^verbatim>\<open>Read\<close> came in between; a second \<^verbatim>\<open>Close\<close>, in contrast, returns
  without error.
\<close>

theorem Done_twice_panics:
  assumes "exit sno = ChanOpen"
  shows "Done sno = Returned (sno\<lparr>exit := ChanClosed\<rparr>)
    \<and> Done (sno\<lparr>exit := ChanClosed\<rparr>) = Panicked CloseOfClosedChannel
    \<and> Done (snd (Close (sno\<lparr>exit := ChanClosed\<rparr>))) = Panicked CloseOfClosedChannel
    \<and> Done (snd (Read (sno\<lparr>exit := ChanClosed\<rparr>) p)) = Panicked CloseOfClosedChannel
    \<and> Close (snd (Close sno)) = (None, snd (Close sno))"
  using assms by (simp add: Done_def exit_Close exit_Read Close_twice)

theorem Done_twice_panics_witness:
  "exit (openNode 10) = ChanOpen
    \<and> Done (openNode 10) = Returned ((openNode 10)\<lparr>exit := ChanClosed\<rparr>)
    \<and> Done ((openNode 10)\<lparr>exit := ChanClosed\<rparr>) = Panicked CloseOfClosedChannel"
proof -
  have e: "exit (openNode 10) = ChanOpen"
    by (simp add: openNode_def)
  show ?thesis
    using Done_twice_panics [OF e, of 0] e by simp
qed

section \<open>Properties of the client\<close>

text \<open>
  C1, evaluated on a bucket with two keys in one page whose deletions the backend
  refuses. The first deletion fails; the second key is never tried and the bucket is
  not removed, but the call returns \<^verbatim>\<open>nil\<close>: what it returns is the error of the listing,
  which is \<^verbatim>\<open>nil\<close>, not the error of the deletion.
\<close>

theorem DeleteBucket_failed_delete_returns_nil:
  "DeleteBucket denyDeleteSdk ''user'' ''my-data'' ([], ()) =
     Some (Returned None,
       ([CallHeadBucket ''my-data'', CallListObjectsV2 ''my-data'' None,
         CallHeadBucket ''my-data'', CallDeleteObject ''my-data'' ''k1''], ()))"
  by (simp add: DeleteBucket_def deletePages.simps validateBucket_def HeadBucket_def invoke_def
      denyDeleteSdk_def okResponse_def DeleteObject_def filepath_Clean_def)

text \<open>
  C3. For every bucket name of at most two bytes, \<^verbatim>\<open>CreateBucket\<close> returns the error
  \<open>ErrInvalidBucketName\<close> and leaves the world as it was: no request is sent, neither a
  probe nor a creation, and the backend keeps its state.
\<close>

theorem CreateBucket_short_name:
  "length name \<le> 2 \<Longrightarrow> CreateBucket sdk user name w = (Inl ErrInvalidBucketName, w)"
  by (simp add: CreateBucket_def validateBucket_def)

theorem CreateBucket_short_name_witness:
  "length ''ab'' \<le> 2
    \<and> CreateBucket denyDeleteSdk ''user'' ''ab'' ([], ()) = (Inl ErrInvalidBucketName, ([], ()))"
  using CreateBucket_short_name [of "''ab''" denyDeleteSdk "''user''" "([], ())"] by simp

lemma validateBucket_ok:
  assumes "2 < length bucket" and "sdk (CallHeadBucket bucket) b = (r, b1)" and "r_err r = None"
  shows "validateBucket sdk bucket (cs, b) = (1, (cs @ [CallHeadBucket bucket], b1))"
  using assms by (simp add: validateBucket_def HeadBucket_def invoke_def)

lemma HeadObject_ok:
  assumes "2 < length bucket" and "sdk (CallHeadBucket bucket) b = (r, b1)" and "r_err r = None"
    and "sdk (CallHeadObject bucket (filepath_Clean (''./'' @ path))) b1 = (r3, b3)"
  shows "HeadObject sdk userID bucket path (cs, b) =
     ((case r_err r3 of Some e \<Rightarrow> 0 | None \<Rightarrow> ContentLength r3, r_err r3),
      (cs @ [CallHeadBucket bucket, CallHeadObject bucket (filepath_Clean (''./'' @ path))], b3))"
proof -
  have "validateBucket sdk bucket (cs, b) = (1, (cs @ [CallHeadBucket bucket], b1))"
    using assms(1-3) by (rule validateBucket_ok)
  then show ?thesis
    using assms(4) by (simp add: HeadObject_def invoke_def split: option.splits)
qed

text \<open>
  C7, as the code has it. On a bucket that both probes find, and for a key whose
  \<^verbatim>\<open>HeadObject\<close> request succeeds with a length that is not negative, \<^verbatim>\<open>GetObject\<close> sends the
  \<^verbatim>\<open>HeadObject\<close> request before the download and hands the download a buffer of exactly the
  declared content length. When the download reports no error, the call fails with the
  error \<open>ErrUnknownCephRGW\<close> if the byte count differs from the declared length, be it
  smaller or larger, and returns the object if it is equal. When the download reports
  \<open>NoSuchKey\<close> the call returns the object and no error, whatever was read; any other
  error of the download is returned as it is.
\<close>

theorem GetObject_head_then_download:
  assumes "2 < length bucket"
    and "sdk (CallHeadBucket bucket) b0 = (r1, b1)" and "r_err r1 = None"
    and "sdk (CallHeadBucket bucket) b1 = (r2, b2)" and "r_err r2 = None"
    and "sdk (CallHeadObject bucket (filepath_Clean (''./'' @ path))) b2 = (r3, b3)"
    and "r_err r3 = None" and "\<not> ContentLength r3 <s 0"
    and "sdk (CallDownload bucket (filepath_Clean (''./'' @ path)) (unat (ContentLength r3))) b3
           = (r4, b4)"
  shows "snd (GetObject sdk userID bucket path (cs, b0)) =
       (cs @ [CallHeadBucket bucket, CallHeadBucket bucket,
              CallHeadObject bucket (filepath_Clean (''./'' @ path)),
              CallDownload bucket (filepath_Clean (''./'' @ path)) (unat (ContentLength r3))], b4)
    \<and> (r_err r4 = None \<and> r_n r4 \<noteq> ContentLength r3 \<longrightarrow>
         fst (GetObject sdk userID bucket path (cs, b0)) = Returned (Inl ErrUnknownCephRGW))
    \<and> (r_err r4 = None \<and> r_n r4 = ContentLength r3 \<longrightarrow>
         fst (GetObject sdk userID bucket path (cs, b0)) =
           Returned (Inr \<lparr>object_Bucket = bucket,
                          object_Name = snd (filepath_Split (filepath_Clean (''./'' @ path))),
                          object_Prefix = fst (filepath_Split (filepath_Clean (''./'' @ path)))\<rparr>))
    \<and> (r_err r4 = Some NoSuchKey \<longrightarrow>
         fst (GetObject sdk userID bucket path (cs, b0)) =
           Returned (Inr \<lparr>object_Bucket = bucket,
                          object_Name = snd (filepath_Split (filepath_Clean (''./'' @ path))),
                          object_Prefix = fst (filepath_Split (filepath_Clean (''./'' @ path)))\<rparr>))
    \<and> (r_err r4 = Some e \<and> e \<noteq> NoSuchKey \<longrightarrow>
         fst (GetObject sdk userID bucket path (cs, b0)) = Returned (Inl e))"
proof -
  have v1: "validateBucket sdk bucket (cs, b0) = (1, (cs @ [CallHeadBucket bucket], b1))"
    using assms(1-3) by (rule validateBucket_ok)
  have h: "HeadObject sdk userID bucket path (cs @ [CallHeadBucket bucket], b1) =
      ((ContentLength r3, None),
       (cs @ [CallHeadBucket bucket, CallHeadBucket bucket,
              CallHeadObject bucket (filepath_Clean (''./'' @ path))], b3))"
    using HeadObject_ok [of bucket sdk b1 r2 b2 path r3 b3 userID "cs @ [CallHeadBucket bucket]"]
      assms(1,4,5,6,7) by simp
  show ?thesis
    using assms(8,9)
    by (auto simp add: GetObject_def v1 h invoke_def Let_def case_prod_beta split: option.splits)
qed

theorem GetObject_head_then_download_witness:
  "GetObject shortReadSdk ''user'' ''my-data'' ''short.bin'' ([], ()) =
     (Returned (Inl ErrUnknownCephRGW),
      ([CallHeadBucket ''my-data'', CallHeadBucket ''my-data'',
        CallHeadObject ''my-data'' ''short.bin'', CallDownload ''my-data'' ''short.bin'' 10], ()))
    \<and> GetObject longReadSdk ''user'' ''my-data'' ''long.bin'' ([], ()) =
     (Returned (Inl ErrUnknownCephRGW),
      ([CallHeadBucket ''my-data'', CallHeadBucket ''my-data'',
        CallHeadObject ''my-data'' ''long.bin'', CallDownload ''my-data'' ''long.bin'' 10], ()))"
proof -
  have c: "filepath_Clean ''./short.bin'' = ''short.bin''"
    by (simp add: filepath_Clean_def)
  have hb: "shortReadSdk (CallHeadBucket ''my-data'') () = (okResponse, ())"
    by (simp add: shortReadSdk_def)
  have ho: "shortReadSdk (CallHeadObject ''my-data'' ''short.bin'') ()
      = (okResponse\<lparr>ContentLength := 10\<rparr>, ())"
    by (simp add: shortReadSdk_def)
  have dl: "shortReadSdk (CallDownload ''my-data'' ''short.bin'' 10) ()
      = (okResponse\<lparr>r_n := 7\<rparr>, ())"
    by (simp add: shortReadSdk_def)
  have t: "snd (GetObject shortReadSdk ''user'' ''my-data'' ''short.bin'' ([], ())) =
       ([CallHeadBucket ''my-data'', CallHeadBucket ''my-data'',
         CallHeadObject ''my-data'' ''short.bin'', CallDownload ''my-data'' ''short.bin'' 10], ())
    \<and> fst (GetObject shortReadSdk ''user'' ''my-data'' ''short.bin'' ([], ())) =
        Returned (Inl ErrUnknownCephRGW)"
    using GetObject_head_then_download [of "''my-data''" shortReadSdk "()" okResponse "()"
        okResponse "()" "''short.bin''" "okResponse\<lparr>ContentLength := 10\<rparr>" "()"
        "okResponse\<lparr>r_n := 7\<rparr>" "()" "''user''" "[]"] hb ho dl
    by (simp add: c okResponse_def word_sless_alt)
  have c2: "filepath_Clean ''./long.bin'' = ''long.bin''"
    by (simp add: filepath_Clean_def)
  have hb2: "longReadSdk (CallHeadBucket ''my-data'') () = (okResponse, ())"
    by (simp add: longReadSdk_def)
  have ho2: "longReadSdk (CallHeadObject ''my-data'' ''long.bin'') ()
      = (okResponse\<lparr>ContentLength := 10\<rparr>, ())"
    by (simp add: longReadSdk_def)
  have dl2: "longReadSdk (CallDownload ''my-data'' ''long.bin'' 10) ()
      = (okResponse\<lparr>r_n := 12\<rparr>, ())"
    by (simp add: longReadSdk_def)
  have t2: "snd (GetObject longReadSdk ''user'' ''my-data'' ''long.bin'' ([], ())) =
       ([CallHeadBucket ''my-data'', CallHeadBucket ''my-data'',
         CallHeadObject ''my-data'' ''long.bin'', CallDownload ''my-data'' ''long.bin'' 10], ())
    \<and> fst (GetObject longReadSdk ''user'' ''my-data'' ''long.bin'' ([], ())) =
        Returned (Inl ErrUnknownCephRGW)"
    using GetObject_head_then_download [of "''my-data''" longReadSdk "()" okResponse "()"
        okResponse "()" "''long.bin''" "okResponse\<lparr>ContentLength := 10\<rparr>" "()"
        "okResponse\<lparr>r_n := 12\<rparr>" "()" "''user''" "[]"] hb2 ho2 dl2
    by (simp add: c2 okResponse_def word_sless_alt)
  from t t2 show ?thesis
    by (simp add: prod_eq_iff)
qed

text \<open>
  C7, as stated, fails. In \<open>vanishingSdk\<close> the bucket exists and \<^verbatim>\<open>HeadObject\<close> declares 10
  bytes; the download reads nothing and reports \<open>NoSuchKey\<close>, and \<^verbatim>\<open>GetObject\<close> returns the
  object and no error although the count read differs from the declared length. In
  \<open>flakyProbeSdk\<close> the bucket exists as well, but the probe inside \<^verbatim>\<open>HeadObject\<close> fails: no
  \<^verbatim>\<open>HeadObject\<close> request is sent at all and the download gets a buffer of length \<open>0\<close>.
\<close>

theorem GetObject_length_mismatch_counterexample:
  "GetObject vanishingSdk ''user'' ''my-data'' ''gone.bin'' ([], ()) =
     (Returned (Inr \<lparr>object_Bucket = ''my-data'', object_Name = ''gone.bin'',
                    object_Prefix = []\<rparr>),
      ([CallHeadBucket ''my-data'', CallHeadBucket ''my-data'',
        CallHeadObject ''my-data'' ''gone.bin'', CallDownload ''my-data'' ''gone.bin'' 10], ()))
    \<and> r_n (fst (vanishingSdk (CallDownload ''my-data'' ''gone.bin'' 10) ())) = 0
    \<and> ContentLength (fst (vanishingSdk (CallHeadObject ''my-data'' ''gone.bin'') ())) = 10
    \<and> GetObject flakyProbeSdk ''user'' ''my-data'' ''late.bin'' ([], 0) =
     (Returned (Inr \<lparr>object_Bucket = ''my-data'', object_Name = ''late.bin'',
                    object_Prefix = []\<rparr>),
      ([CallHeadBucket ''my-data'', CallHeadBucket ''my-data'',
        CallDownload ''my-data'' ''late.bin'' 0], 2))"
proof -
  have "GetObject flakyProbeSdk ''user'' ''my-data'' ''late.bin'' ([], 0) =
     (Returned (Inr \<lparr>object_Bucket = ''my-data'', object_Name = ''late.bin'',
                    object_Prefix = []\<rparr>),
      ([CallHeadBucket ''my-data'', CallHeadBucket ''my-data'',
        CallDownload ''my-data'' ''late.bin'' 0], 2))"
    by (simp add: GetObject_def HeadObject_def validateBucket_def HeadBucket_def invoke_def
        flakyProbeSdk_def okResponse_def filepath_Clean_def filepath_Split_def Let_def
        numeral_2_eq_2)
  then show ?thesis
    by (simp add: GetObject_def HeadObject_def validateBucket_def HeadBucket_def invoke_def
        vanishingSdk_def okResponse_def filepath_Clean_def filepath_Split_def Let_def
        word_sless_alt)
qed

text \<open>
  C8, as the code has it. On a bucket that both probes find, a key for which the
  \<^verbatim>\<open>HeadObject\<close> request reports an error, \<open>NoSuchKey\<close> included, makes \<^verbatim>\<open>GetObject\<close> fail
  with that very error, and no download is sent. When \<^verbatim>\<open>HeadObject\<close> returns without error
  and it is the download that reports \<open>NoSuchKey\<close>, \<^verbatim>\<open>GetObject\<close> returns the object and no
  error.
\<close>

theorem GetObject_NoSuchKey:
  assumes "2 < length bucket"
    and "sdk (CallHeadBucket bucket) b0 = (r1, b1)" and "r_err r1 = None"
  shows "(sdk (CallHeadBucket bucket) b1 = (r2, b2) \<and> r_err r2 = None
          \<and> sdk (CallHeadObject bucket (filepath_Clean (''./'' @ path))) b2 = (r3, b3)
          \<and> r_err r3 = Some e \<longrightarrow>
           GetObject sdk userID bucket path (cs, b0) =
             (Returned (Inl e),
              (cs @ [CallHeadBucket bucket, CallHeadBucket bucket,
                     CallHeadObject bucket (filepath_Clean (''./'' @ path))], b3)))
    \<and> (HeadObject sdk userID bucket path (cs @ [CallHeadBucket bucket], b1) = ((n, None), w2)
          \<and> \<not> n <s 0
          \<and> invoke sdk (CallDownload bucket (filepath_Clean (''./'' @ path)) (unat n)) w2 = (r4, w3)
          \<and> r_err r4 = Some NoSuchKey \<longrightarrow>
           GetObject sdk userID bucket path (cs, b0) =
             (Returned (Inr \<lparr>object_Bucket = bucket,
                          object_Name = snd (filepath_Split (filepath_Clean (''./'' @ path))),
                          object_Prefix = fst (filepath_Split (filepath_Clean (''./'' @ path)))\<rparr>),
              w3))"
proof -
  have v1: "validateBucket sdk bucket (cs, b0) = (1, (cs @ [CallHeadBucket bucket], b1))"
    using assms by (rule validateBucket_ok)
  show ?thesis
  proof (intro conjI impI)
    assume a: "sdk (CallHeadBucket bucket) b1 = (r2, b2) \<and> r_err r2 = None
          \<and> sdk (CallHeadObject bucket (filepath_Clean (''./'' @ path))) b2 = (r3, b3)
          \<and> r_err r3 = Some e"
    have "HeadObject sdk userID bucket path (cs @ [CallHeadBucket bucket], b1) =
      ((0, Some e),
       (cs @ [CallHeadBucket bucket, CallHeadBucket bucket,
              CallHeadObject bucket (filepath_Clean (''./'' @ path))], b3))"
      using HeadObject_ok [of bucket sdk b1 r2 b2 path r3 b3 userID "cs @ [CallHeadBucket bucket]"]
        assms(1) a
      by simp
    then show "GetObject sdk userID bucket path (cs, b0) =
             (Returned (Inl e),
              (cs @ [CallHeadBucket bucket, CallHeadBucket bucket,
                     CallHeadObject bucket (filepath_Clean (''./'' @ path))], b3))"
      by (simp add: GetObject_def v1 Let_def case_prod_beta)
  next
    assume "HeadObject sdk userID bucket path (cs @ [CallHeadBucket bucket], b1) = ((n, None), w2)
          \<and> \<not> n <s 0
          \<and> invoke sdk (CallDownload bucket (filepath_Clean (''./'' @ path)) (unat n)) w2 = (r4, w3)
          \<and> r_err r4 = Some NoSuchKey"
    then show "GetObject sdk userID bucket path (cs, b0) =
             (Returned (Inr \<lparr>object_Bucket = bucket,
                          object_Name = snd (filepath_Split (filepath_Clean (''./'' @ path))),
                          object_Prefix = fst (filepath_Split (filepath_Clean (''./'' @ path)))\<rparr>),
              w3)"
      by (simp add: GetObject_def v1 Let_def case_prod_beta)
  qed
qed
theorem GetObject_NoSuchKey_witness:
  "GetObject shortReadSdk ''user'' ''my-data'' ''missing.txt'' ([], ()) =
     (Returned (Inl NoSuchKey),
      ([CallHeadBucket ''my-data'', CallHeadBucket ''my-data'',
        CallHeadObject ''my-data'' ''missing.txt''], ()))
    \<and> GetObject flakyProbeSdk ''user'' ''my-data'' ''dir/other.txt'' ([], 0) =
     (Returned (Inr \<lparr>object_Bucket = ''my-data'', object_Name = ''other.txt'',
                    object_Prefix = ''dir/''\<rparr>),
      ([CallHeadBucket ''my-data'', CallHeadBucket ''my-data'',
        CallDownload ''my-data'' ''dir/other.txt'' 0], 2))"
proof -
  have c1: "filepath_Clean ''./missing.txt'' = ''missing.txt''"
    by (simp add: filepath_Clean_def)
  have c2: "filepath_Clean ''./dir/other.txt'' = ''dir/other.txt''"
    by (simp add: filepath_Clean_def)
  have s2: "filepath_Split ''dir/other.txt'' = (''dir/'', ''other.txt'')"
    by (simp add: filepath_Split_def)
  have hb: "shortReadSdk (CallHeadBucket ''my-data'') () = (okResponse, ())"
    by (simp add: shortReadSdk_def)
  have ho: "shortReadSdk (CallHeadObject ''my-data'' ''missing.txt'') ()
      = (okResponse\<lparr>r_err := Some NoSuchKey\<rparr>, ())"
    by (simp add: shortReadSdk_def)
  have a: "GetObject shortReadSdk ''user'' ''my-data'' ''missing.txt'' ([], ()) =
     (Returned (Inl NoSuchKey),
      ([CallHeadBucket ''my-data'', CallHeadBucket ''my-data'',
        CallHeadObject ''my-data'' ''missing.txt''], ()))"
    using GetObject_NoSuchKey [of "''my-data''" shortReadSdk "()" okResponse "()" okResponse "()"
        "''missing.txt''" "okResponse\<lparr>r_err := Some NoSuchKey\<rparr>" "()" NoSuchKey "''user''" "[]"]
      hb ho
    by (simp add: c1 okResponse_def)
  have fb: "flakyProbeSdk (CallHeadBucket ''my-data'') 0 = (okResponse, 1)"
    by (simp add: flakyProbeSdk_def)
  have fh: "HeadObject flakyProbeSdk ''user'' ''my-data'' ''dir/other.txt''
      ([] @ [CallHeadBucket ''my-data''], 1) =
      ((0, None), ([CallHeadBucket ''my-data'', CallHeadBucket ''my-data''], 2))"
    by (simp add: HeadObject_def validateBucket_def HeadBucket_def invoke_def flakyProbeSdk_def
        okResponse_def numeral_2_eq_2)
  have fd: "invoke flakyProbeSdk (CallDownload ''my-data'' ''dir/other.txt'' (unat (0::int64)))
      ([CallHeadBucket ''my-data'', CallHeadBucket ''my-data''], 2) =
      (okResponse\<lparr>r_err := Some NoSuchKey\<rparr>,
       ([CallHeadBucket ''my-data'', CallHeadBucket ''my-data'',
         CallDownload ''my-data'' ''dir/other.txt'' 0], 2))"
    by (simp add: invoke_def flakyProbeSdk_def)
  have b: "GetObject flakyProbeSdk ''user'' ''my-data'' ''dir/other.txt'' ([], 0) =
     (Returned (Inr \<lparr>object_Bucket = ''my-data'', object_Name = ''other.txt'',
                    object_Prefix = ''dir/''\<rparr>),
      ([CallHeadBucket ''my-data'', CallHeadBucket ''my-data'',
        CallDownload ''my-data'' ''dir/other.txt'' 0], 2))"
    using GetObject_NoSuchKey [of "''my-data''" flakyProbeSdk 0 okResponse 1 _ _
        "''dir/other.txt''" _ _ _ "''user''" "[]" 0
        "([CallHeadBucket ''my-data'', CallHeadBucket ''my-data''], 2)"
        "okResponse\<lparr>r_err := Some NoSuchKey\<rparr>"
        "([CallHeadBucket ''my-data'', CallHeadBucket ''my-data'',
         CallDownload ''my-data'' ''dir/other.txt'' 0], 2)"]
      fb fh fd
    by (simp add: c2 s2 okResponse_def word_sless_alt)
  from a b show ?thesis by simp
qed

text \<open>
  C8, as stated, fails. In \<open>flakyProbeSdk\<close> no key was ever written. The probe of
  \<^verbatim>\<open>GetObject\<close> finds the bucket, the probe inside \<^verbatim>\<open>HeadObject\<close> times out, so \<^verbatim>\<open>HeadObject\<close>
  returns length \<open>0\<close> without error and without asking for the key; the download then
  reports \<open>NoSuchKey\<close>, and \<^verbatim>\<open>GetObject\<close> returns an object and no error.
\<close>

theorem GetObject_missing_key_counterexample:
  "GetObject flakyProbeSdk ''user'' ''my-data'' ''missing.txt'' ([], 0) =
     (Returned (Inr \<lparr>object_Bucket = ''my-data'', object_Name = ''missing.txt'',
                    object_Prefix = []\<rparr>),
      ([CallHeadBucket ''my-data'', CallHeadBucket ''my-data'',
        CallDownload ''my-data'' ''missing.txt'' 0], 2))"
  by (simp add: GetObject_def HeadObject_def validateBucket_def HeadBucket_def invoke_def
      flakyProbeSdk_def okResponse_def filepath_Clean_def filepath_Split_def Let_def
      numeral_2_eq_2)

section \<open>Properties of the tree builder\<close>

lemmas tree_eval = OnAdd_file_def newRoot_def key_def filepath_Clean_def
  filepath_Split_def GetChild_def NewPersistentInode_def AddChild_def isDirectory_def S_IFDIR_def

lemmas shape_eval = abcShape_def childKinds_def insert_commute


lemma AddChild_cases:
  assumes "AddChild rebind t p name ch = Some t2"
  shows "t2 = t \<or> t2 = t[p := (t ! p)\<lparr>children := AList.update name ch (children (t ! p))\<rparr>]"
  using assms by (auto simp add: AddChild_def split: if_splits)

lemma uniqueNames_NewPersistentInode:
  "uniqueNames t \<Longrightarrow> uniqueNames (snd (NewPersistentInode t node attr))"
  by (simp add: uniqueNames_def NewPersistentInode_def)

lemma uniqueNames_list_update:
  assumes "uniqueNames t"
  shows "uniqueNames (t[p := (t ! p)\<lparr>children := AList.update name ch (children (t ! p))\<rparr>])"
proof (cases "p < length t")
  case True
  then have "distinct (map fst (children (t ! p)))"
    using assms by (simp add: uniqueNames_def list_all_length)
  then have "distinct (map fst (AList.update name ch (children (t ! p))))"
    by (rule distinct_update)
  with assms True show ?thesis
    by (auto simp add: uniqueNames_def list_all_length nth_list_update)
next
  case False
  then have "t[p := x] = t" for x
    by (simp add: list_update_beyond)
  with assms show ?thesis
    by simp
qed

lemma uniqueNames_AddChild:
  "uniqueNames t \<Longrightarrow> AddChild rebind t p name ch = Some t2 \<Longrightarrow> uniqueNames t2"
  using AddChild_cases uniqueNames_list_update by blast

lemma uniqueNames_components:
  "uniqueNames t \<Longrightarrow> OnAdd_components rebind t p cs = Some (q, t2) \<Longrightarrow> uniqueNames t2"
proof (induction cs arbitrary: t p)
  case Nil
  then show ?case by simp
next
  case (Cons c cs)
  show ?case
  proof (cases "length c = 0")
    case True
    with Cons show ?thesis by simp
  next
    case False
    show ?thesis
    proof (cases "GetChild t p c")
      case None
      let ?t1 = "t @ [\<lparr>stableAttr = \<lparr>Mode = S_IFDIR\<rparr>, ops = InodeOps, children = []\<rparr>]"
      from Cons.prems(2) False None obtain t3 where
        a: "AddChild rebind ?t1 p c (length t) = Some t3" and
        r: "OnAdd_components rebind t3 (length t) cs = Some (q, t2)"
        by (auto simp add: NewPersistentInode_def split: option.splits)
      have "uniqueNames ?t1"
        using Cons.prems(1) by (simp add: uniqueNames_def)
      then have "uniqueNames t3"
        using a by (rule uniqueNames_AddChild)
      then show ?thesis
        using r by (rule Cons.IH)
    next
      case (Some ch)
      with False Cons show ?thesis by simp
    qed
  qed
qed

lemma uniqueNames_file:
  assumes "uniqueNames t" and "OnAdd_file rebind t f = Some t2"
  shows "uniqueNames t2"
proof (cases "file_IsDir f")
  case True
  with assms show ?thesis by (simp add: OnAdd_file_def)
next
  case False
  obtain dir base where s: "filepath_Split (filepath_Clean (file_Name f)) = (dir, base)"
    by (cases "filepath_Split (filepath_Clean (file_Name f))")
  from assms(2) False s obtain p t1 where
    c: "OnAdd_components rebind t 0 (strings_Split CHR ''/'' dir) = Some (p, t1)" and
    a: "AddChild rebind (snd (NewPersistentInode t1 (S3FileOps f) \<lparr>Mode = 0\<rparr>)) p base
          (length t1) = Some t2"
    by (auto simp add: OnAdd_file_def NewPersistentInode_def split: option.splits)
  have "uniqueNames t1"
    using assms(1) c by (rule uniqueNames_components)
  then have "uniqueNames (snd (NewPersistentInode t1 (S3FileOps f) \<lparr>Mode = 0\<rparr>))"
    by (rule uniqueNames_NewPersistentInode)
  then show ?thesis
    using a by (rule uniqueNames_AddChild)
qed

lemma uniqueNames_OnAdd:
  "uniqueNames t \<Longrightarrow> OnAdd rebind t files = Some t2 \<Longrightarrow> uniqueNames t2"
proof (induction files arbitrary: t)
  case Nil
  then show ?case by simp
next
  case (Cons f files)
  from Cons.prems(2) obtain t1 where
    f: "OnAdd_file rebind t f = Some t1" and r: "OnAdd rebind t1 files = Some t2"
    by (auto split: option.splits)
  have "uniqueNames t1"
    using Cons.prems(1) f by (rule uniqueNames_file)
  then show ?case
    using r by (rule Cons.IH)
qed

lemma uniqueNames_newRoot: "uniqueNames newRoot"
  by (simp add: uniqueNames_def newRoot_def)

text \<open>
  C5. Built from the keys \<^verbatim>\<open>a/b/c.txt\<close>, \<^verbatim>\<open>a/b/d.txt\<close> and \<^verbatim>\<open>a/e.txt\<close> in this order, the tree
  consists of the root with the one child \<^verbatim>\<open>a\<close>, the directory \<^verbatim>\<open>a\<close> with the children \<^verbatim>\<open>b\<close>
  and \<^verbatim>\<open>e.txt\<close>, the directory \<^verbatim>\<open>b\<close> with the children \<^verbatim>\<open>c.txt\<close> and \<^verbatim>\<open>d.txt\<close>, and the three
  files. In each of the six orders of the three keys the tree has that shape. For every
  listing, no inode of the built tree binds a name twice. All of it holds whatever
  \<^verbatim>\<open>AddChild\<close> does with a bound name.
\<close>

theorem OnAdd_three_keys:
  "OnAdd rebind newRoot [key ''a/b/c.txt'', key ''a/b/d.txt'', key ''a/e.txt''] =
     Some
     [\<lparr>stableAttr = \<lparr>Mode = S_IFDIR\<rparr>, ops = InodeOps, children = [(''a'', 1)]\<rparr>,
      \<lparr>stableAttr = \<lparr>Mode = S_IFDIR\<rparr>, ops = InodeOps, children = [(''b'', 2), (''e.txt'', 5)]\<rparr>,
      \<lparr>stableAttr = \<lparr>Mode = S_IFDIR\<rparr>, ops = InodeOps, children = [(''c.txt'', 3), (''d.txt'', 4)]\<rparr>,
      \<lparr>stableAttr = \<lparr>Mode = 0\<rparr>, ops = S3FileOps (key ''a/b/c.txt''), children = []\<rparr>,
      \<lparr>stableAttr = \<lparr>Mode = 0\<rparr>, ops = S3FileOps (key ''a/b/d.txt''), children = []\<rparr>,
      \<lparr>stableAttr = \<lparr>Mode = 0\<rparr>, ops = S3FileOps (key ''a/e.txt''), children = []\<rparr>]
    \<and> map_option abcShape
          (OnAdd rebind newRoot [key ''a/b/c.txt'', key ''a/b/d.txt'', key ''a/e.txt'']) = Some True
    \<and> map_option abcShape
          (OnAdd rebind newRoot [key ''a/b/c.txt'', key ''a/e.txt'', key ''a/b/d.txt'']) = Some True
    \<and> map_option abcShape
          (OnAdd rebind newRoot [key ''a/b/d.txt'', key ''a/b/c.txt'', key ''a/e.txt'']) = Some True
    \<and> map_option abcShape
          (OnAdd rebind newRoot [key ''a/b/d.txt'', key ''a/e.txt'', key ''a/b/c.txt'']) = Some True
    \<and> map_option abcShape
          (OnAdd rebind newRoot [key ''a/e.txt'', key ''a/b/c.txt'', key ''a/b/d.txt'']) = Some True
    \<and> map_option abcShape
          (OnAdd rebind newRoot [key ''a/e.txt'', key ''a/b/d.txt'', key ''a/b/c.txt'']) = Some True
    \<and> (\<forall>files t. OnAdd rebind newRoot files = Some t \<longrightarrow> uniqueNames t)"
proof (intro conjI allI impI)
  show "uniqueNames t" if "OnAdd rebind newRoot files = Some t" for files t
    using uniqueNames_newRoot that by (rule uniqueNames_OnAdd)
qed (simp_all add: tree_eval shape_eval)

theorem OnAdd_three_keys_witness:
  "OnAdd True newRoot [key ''a/b/c.txt'', key ''a/b/d.txt'', key ''a/e.txt''] =
     Some
     [\<lparr>stableAttr = \<lparr>Mode = S_IFDIR\<rparr>, ops = InodeOps, children = [(''a'', 1)]\<rparr>,
      \<lparr>stableAttr = \<lparr>Mode = S_IFDIR\<rparr>, ops = InodeOps, children = [(''b'', 2), (''e.txt'', 5)]\<rparr>,
      \<lparr>stableAttr = \<lparr>Mode = S_IFDIR\<rparr>, ops = InodeOps, children = [(''c.txt'', 3), (''d.txt'', 4)]\<rparr>,
      \<lparr>stableAttr = \<lparr>Mode = 0\<rparr>, ops = S3FileOps (key ''a/b/c.txt''), children = []\<rparr>,
      \<lparr>stableAttr = \<lparr>Mode = 0\<rparr>, ops = S3FileOps (key ''a/b/d.txt''), children = []\<rparr>,
      \<lparr>stableAttr = \<lparr>Mode = 0\<rparr>, ops = S3FileOps (key ''a/e.txt''), children = []\<rparr>]
    \<and> uniqueNames
     [\<lparr>stableAttr = \<lparr>Mode = S_IFDIR\<rparr>, ops = InodeOps, children = [(''a'', 1)]\<rparr>,
      \<lparr>stableAttr = \<lparr>Mode = S_IFDIR\<rparr>, ops = InodeOps, children = [(''b'', 2), (''e.txt'', 5)]\<rparr>,
      \<lparr>stableAttr = \<lparr>Mode = S_IFDIR\<rparr>, ops = InodeOps, children = [(''c.txt'', 3), (''d.txt'', 4)]\<rparr>,
      \<lparr>stableAttr = \<lparr>Mode = 0\<rparr>, ops = S3FileOps (key ''a/b/c.txt''), children = []\<rparr>,
      \<lparr>stableAttr = \<lparr>Mode = 0\<rparr>, ops = S3FileOps (key ''a/b/d.txt''), children = []\<rparr>,
      \<lparr>stableAttr = \<lparr>Mode = 0\<rparr>, ops = S3FileOps (key ''a/e.txt''), children = []\<rparr>]"
  using OnAdd_three_keys [of True] by blast

lemma wellFormed_newRoot: "wellFormed newRoot"
  by (simp add: wellFormed_def newRoot_def)










section \<open>Properties of the retry policy\<close>

lemma bitLength_0: "bitLength 0 = 0"
  by simp

lemma bitLength_1: "bitLength 1 = 1"
  by simp

lemma bitLength_numeral: "bitLength (numeral k) = Suc (bitLength (numeral k div 2))"
  by simp

declare bitLength.simps [simp del]

lemmas backoff_eval = BackoffDelay_def powInt_def clientBackoff_def f64_of_int_def f64_def
  roundRatio_def roundNearestEven_def fiveMinutes_def bitLength_0 bitLength_1 bitLength_numeral
  Let_def word_sless_alt

lemma BackoffDelay_capped:
  "BackoffDelay powBeyond outOfRange j attempt intn \<le>s fiveMinutes"
  by (simp add: BackoffDelay_def Let_def word_sle_eq word_sless_alt)

lemma product_wraps_33:
  "sint (minDelay clientBackoff * powInt powBeyond 33) = - 1255687439686874944"
  by (simp add: clientBackoff_def powInt_def)

lemma product_wraps_32:
  "sint (minDelay clientBackoff * powInt powBeyond 32) = 5730352211340892224"
  by (simp add: clientBackoff_def powInt_def)

lemma delay_32:
  "list_all (\<lambda>intn. BackoffDelay powBeyond outOfRange clientBackoff 32 intn = fiveMinutes) draws"
  by (simp only: draws_def append.simps list.pred_inject, simp add: backoff_eval)

lemma delay_33:
  "list_all (\<lambda>intn. BackoffDelay powBeyond outOfRange clientBackoff 33 intn <s 0) draws"
  by (simp only: draws_def append.simps list.pred_inject, simp add: backoff_eval)

lemma sumDelay_32: "sumDelay powBeyond outOfRange clientBackoff 32 = 40 * 300000000000"
  by (simp only: sumDelay_def draws_def append.simps list.map sum_list.Cons sum_list.Nil,
      simp add: backoff_eval)

lemma sumDelay_33: "sumDelay powBeyond outOfRange clientBackoff 33 < 0"
  by (simp only: sumDelay_def draws_def append.simps list.map sum_list.Cons sum_list.Nil,
      simp add: backoff_eval)

text \<open>
  C4, evaluated for the backoff of the client, 25 milliseconds. Whatever the attempt
  number, the delay never exceeds 5 minutes. The product of the delay and the power,
  which the claim takes as \<open>25000000 * 3 ^ k\<close>, is a wrapping product. At attempt 32 it has
  wrapped to a positive number above the cap, and the delay is 5 minutes for each of the
  40 draws. At attempt 33 it wraps to a negative number, and the delay is negative for
  each of the 40 draws, \<open>- 1255687439686874880\<close> nanoseconds for the jitter \<open>1.00\<close>: the
  delay is not the base times \<open>3 ^ 33\<close> scaled and capped, which is 5 minutes, and the sum of
  the delays over the draws, hence the expected delay, falls from attempt 32 to attempt
  33.
\<close>

theorem BackoffDelay_wraps_at_attempt_33:
  "BackoffDelay powBeyond outOfRange j attempt intn \<le>s fiveMinutes
    \<and> sint (minDelay clientBackoff * powInt powBeyond 32) = 5730352211340892224
    \<and> list_all (\<lambda>intn. BackoffDelay powBeyond outOfRange clientBackoff 32 intn = fiveMinutes)
         draws
    \<and> sint (minDelay clientBackoff * powInt powBeyond 33) = - 1255687439686874944
    \<and> list_all (\<lambda>intn. BackoffDelay powBeyond outOfRange clientBackoff 33 intn <s 0) draws
    \<and> BackoffDelay powBeyond outOfRange clientBackoff 33 20 = - 1255687439686874880
    \<and> sumDelay powBeyond outOfRange clientBackoff 33
         < sumDelay powBeyond outOfRange clientBackoff 32"
proof -
  have "BackoffDelay powBeyond outOfRange clientBackoff 33 20 = - 1255687439686874880"
    by (simp add: backoff_eval)
  moreover have "sumDelay powBeyond outOfRange clientBackoff 33
      < sumDelay powBeyond outOfRange clientBackoff 32"
    using sumDelay_33 [of powBeyond outOfRange] by (simp add: sumDelay_32)
  ultimately show ?thesis
    using BackoffDelay_capped product_wraps_32 delay_32 product_wraps_33 delay_33 by blast
qed

end
